theory Spec2Isabelle
  imports Complex_Main
begin

section \<open>Python values\<close>

text \<open>
  The module \<^verbatim>\<open>geojson/geometry.py\<close> is dynamically typed: coordinates are nested
  Python lists and tuples whose leaves may be any object. The values that matter to
  the module are embedded in one datatype, \<open>pyval\<close>.

  \<^item> \<open>PBool\<close> and \<open>PInt\<close>: Python's \<^verbatim>\<open>bool\<close> and \<^verbatim>\<open>int\<close> (unbounded; Python 2's
    \<^verbatim>\<open>long\<close> is the same set of values). \<^verbatim>\<open>bool\<close> is a subclass of \<^verbatim>\<open>int\<close>.
  \<^item> \<open>PFloat\<close> and \<open>PDecimal\<close>: a \<^verbatim>\<open>float\<close> or a \<^verbatim>\<open>decimal.Decimal\<close>, given by
    its exact value (\<open>pynum\<close>): finite (a rational), an infinity, or a quiet NaN.
    No arithmetic is done on them; they are stored and compared. A NaN is the one
    value of the model that \<^verbatim>\<open>==\<close> does not find equal to itself, while Python's
    comparison of containers takes an item that is the very same object for equal;
    so \<open>NaN i\<close> carries the name \<open>i\<close> of the object, and the same name in two
    places of a value is the same object in both. A signalling Decimal NaN, whose
    comparison raises, is not part of the model.
  \<^item> \<open>PStr\<close>, \<open>PNone\<close>: strings and \<^verbatim>\<open>None\<close>.
  \<^item> \<open>PList\<close>, \<open>PTuple\<close>: lists and tuples.
  \<^item> \<open>PObj c d\<close>: an instance of the class \<open>c\<close> of the module, with its entries \<open>d\<close>.
\<close>

datatype pynum = Finite rat | Infinity | NegInfinity | NaN nat

text \<open>
  The classes of the module. \<^verbatim>\<open>Point\<close>, \<^verbatim>\<open>MultiPoint\<close>, \<^verbatim>\<open>MultiLineString\<close>,
  \<^verbatim>\<open>Polygon\<close> and \<^verbatim>\<open>MultiPolygon\<close> derive from \<^verbatim>\<open>Geometry\<close>, \<^verbatim>\<open>LineString\<close> from
  \<^verbatim>\<open>MultiPoint\<close>, and \<^verbatim>\<open>Geometry\<close> and \<^verbatim>\<open>GeometryCollection\<close> from \<^verbatim>\<open>GeoJSON\<close>.
\<close>

datatype cls =
    Point | MultiPoint | LineString | MultiLineString | Polygon | MultiPolygon
  | GeometryCollection

text \<open>
  Modelled from the spec: the base class \<^verbatim>\<open>geojson.base.GeoJSON\<close> is imported by the
  module and is not part of it. The spec describes its instances as dictionary-like
  values with "ordered string-keyed mapping behavior", and the module stores and
  reads their entries by key (\<^verbatim>\<open>self["coordinates"] = ...\<close>, \<^verbatim>\<open>coord['coordinates']\<close>).
  An instance \<open>PObj c d\<close> is therefore its class and the list of its entries, in
  insertion order. As for any mapping, iterating it yields its keys, its length is
  the number of its entries, and two of them are equal when their entries are.
\<close>

datatype pyval =
    PNone
  | PBool bool
  | PInt int
  | PFloat pynum
  | PDecimal pynum
  | PStr string
  | PList "pyval list"
  | PTuple "pyval list"
  | PObj cls "(string \<times> pyval) list"

text \<open>
  Exceptions. \<open>ValueError v\<close> is the exception of \<^verbatim>\<open>clean_coordinates\<close>,
  \<^verbatim>\<open>ValueError("%r is not a JSON compliant number" % v)\<close>; it carries the offending
  value. The others are raised by the interpreter: \<open>TypeError\<close> (iterating or taking
  the length of an object that has none, subscripting one that cannot be subscripted),
  \<open>IndexError\<close>, \<open>KeyError\<close>, and \<open>AttributeError\<close> (calling \<^verbatim>\<open>errors()\<close> on a
  value that has no such method).
\<close>

datatype pyerr = ValueError pyval | TypeError | IndexError | KeyError | AttributeError

subsection \<open>Type tests\<close>

text \<open>
  \<^verbatim>\<open>_JSON_compliant_types = (float, int, Decimal)\<close>, plus \<^verbatim>\<open>long\<close> on Python 2.
  \<^verbatim>\<open>isinstance(x, _JSON_compliant_types)\<close> holds of a \<^verbatim>\<open>bool\<close> as well, since
  \<^verbatim>\<open>bool\<close> is a subclass of \<^verbatim>\<open>int\<close>.
\<close>

fun JSON_compliant :: "pyval \<Rightarrow> bool" where
  "JSON_compliant (PFloat _) = True"
| "JSON_compliant (PInt _) = True"
| "JSON_compliant (PBool _) = True"
| "JSON_compliant (PDecimal _) = True"
| "JSON_compliant _ = False"

text \<open>\<^verbatim>\<open>isinstance(x, list)\<close> and \<^verbatim>\<open>isinstance(x, (list, tuple))\<close>.\<close>

fun is_list :: "pyval \<Rightarrow> bool" where
  "is_list (PList _) = True"
| "is_list _ = False"

fun is_list_or_tuple :: "pyval \<Rightarrow> bool" where
  "is_list_or_tuple (PList _) = True"
| "is_list_or_tuple (PTuple _) = True"
| "is_list_or_tuple _ = False"

text \<open>
  \<^verbatim>\<open>isinstance(x, Point)\<close>: no class of the module derives from \<^verbatim>\<open>Point\<close>.
  \<^verbatim>\<open>isinstance(x, Geometry)\<close>: the six geometry classes derive from \<^verbatim>\<open>Geometry\<close>;
  \<^verbatim>\<open>GeometryCollection\<close> derives from \<^verbatim>\<open>GeoJSON\<close> only.
\<close>

fun is_Point :: "pyval \<Rightarrow> bool" where
  "is_Point (PObj c _) = (c = Point)"
| "is_Point _ = False"

fun is_Geometry :: "pyval \<Rightarrow> bool" where
  "is_Geometry (PObj c _) = (c \<noteq> GeometryCollection)"
| "is_Geometry _ = False"

subsection \<open>Iteration, length, subscript, truth value, equality\<close>

text \<open>
  \<^verbatim>\<open>for x in v\<close>: the items of a list or tuple, the one-character strings of a
  string, the keys of a mapping; any other value of the model is not iterable.
\<close>

fun py_iter :: "pyval \<Rightarrow> pyerr + pyval list" where
  "py_iter (PList xs) = Inr xs"
| "py_iter (PTuple xs) = Inr xs"
| "py_iter (PStr s) = Inr (map (\<lambda>c. PStr [c]) s)"
| "py_iter (PObj c d) = Inr (map (\<lambda>kv. PStr (fst kv)) d)"
| "py_iter _ = Inl TypeError"

text \<open>\<^verbatim>\<open>len(v)\<close>.\<close>

fun py_len :: "pyval \<Rightarrow> pyerr + nat" where
  "py_len (PList xs) = Inr (length xs)"
| "py_len (PTuple xs) = Inr (length xs)"
| "py_len (PStr s) = Inr (length s)"
| "py_len (PObj c d) = Inr (length d)"
| "py_len _ = Inl TypeError"

text \<open>
  \<^verbatim>\<open>v[i]\<close> for an integer \<open>i\<close>: a negative index counts from the end; out of range
  raises \<^verbatim>\<open>IndexError\<close>. A string-keyed mapping has no integer key.
\<close>

definition seq_index :: "'a list \<Rightarrow> int \<Rightarrow> pyerr + 'a" where
  "seq_index xs i =
     (if 0 \<le> i \<and> i < int (length xs) then Inr (xs ! nat i)
      else if i < 0 \<and> - int (length xs) \<le> i then Inr (xs ! nat (int (length xs) + i))
      else Inl IndexError)"

fun py_getitem :: "pyval \<Rightarrow> int \<Rightarrow> pyerr + pyval" where
  "py_getitem (PList xs) i = seq_index xs i"
| "py_getitem (PTuple xs) i = seq_index xs i"
| "py_getitem (PStr s) i = map_sum id (\<lambda>c. PStr [c]) (seq_index s i)"
| "py_getitem (PObj c d) i = Inl KeyError"
| "py_getitem _ i = Inl TypeError"

text \<open>\<^verbatim>\<open>v[k]\<close> for a string key \<open>k\<close>, as in \<^verbatim>\<open>self['coordinates']\<close>.\<close>

fun py_getkey :: "pyval \<Rightarrow> string \<Rightarrow> pyerr + pyval" where
  "py_getkey (PObj c d) k = (case map_of d k of None \<Rightarrow> Inl KeyError | Some v \<Rightarrow> Inr v)"
| "py_getkey _ k = Inl TypeError"

text \<open>The truth value tested by \<^verbatim>\<open>if v:\<close>.\<close>

fun py_truthy :: "pyval \<Rightarrow> bool" where
  "py_truthy PNone = False"
| "py_truthy (PBool b) = b"
| "py_truthy (PInt i) = (i \<noteq> 0)"
| "py_truthy (PFloat x) = (x \<noteq> Finite 0)"
| "py_truthy (PDecimal x) = (x \<noteq> Finite 0)"
| "py_truthy (PStr s) = (s \<noteq> [])"
| "py_truthy (PList xs) = (xs \<noteq> [])"
| "py_truthy (PTuple xs) = (xs \<noteq> [])"
| "py_truthy (PObj c d) = (d \<noteq> [])"

text \<open>
  \<^verbatim>\<open>a == b\<close>. Numbers of any of the four numeric types are compared by exact value
  (\<^verbatim>\<open>True == 1\<close>, \<^verbatim>\<open>1 == 1.0\<close>), and a NaN equals nothing, not even itself. Lists
  compare with lists and tuples with tuples, item by item; a list never equals a
  tuple. Mappings are equal when they have as many entries and every key of the
  first has an equal value in the second; the class plays no part.

  Inside a list, a tuple or a mapping, Python compares two items with
  \<^verbatim>\<open>x is y or x == y\<close>: an item that is the same object on both sides counts as
  equal without \<^verbatim>\<open>==\<close> being asked. For every value but a NaN this changes nothing,
  as \<^verbatim>\<open>==\<close> finds the value equal to itself anyway; for a NaN it does:
  \<^verbatim>\<open>n == n\<close> is false, \<^verbatim>\<open>[n, 0] == [n, 0]\<close> is true for one NaN object \<^verbatim>\<open>n\<close>, and
  false for two. \<open>same_NaN_object\<close> is that identity test, and \<open>py_eq_items\<close> and
  \<open>py_eq_entries\<close> apply it before \<open>py_eq\<close>.
\<close>

fun is_NaN :: "pynum \<Rightarrow> bool" where
  "is_NaN (NaN i) = True"
| "is_NaN _ = False"

fun num_value :: "pyval \<Rightarrow> pynum option" where
  "num_value (PBool b) = Some (Finite (if b then 1 else 0))"
| "num_value (PInt i) = Some (Finite (of_int i))"
| "num_value (PFloat x) = Some x"
| "num_value (PDecimal x) = Some x"
| "num_value _ = None"

fun same_NaN_object :: "pyval \<Rightarrow> pyval \<Rightarrow> bool" where
  "same_NaN_object (PFloat (NaN i)) (PFloat (NaN j)) = (i = j)"
| "same_NaN_object (PDecimal (NaN i)) (PDecimal (NaN j)) = (i = j)"
| "same_NaN_object _ _ = False"

fun py_eq :: "pyval \<Rightarrow> pyval \<Rightarrow> bool"
  and py_eq_items :: "pyval list \<Rightarrow> pyval list \<Rightarrow> bool"
  and py_eq_entries :: "(string \<times> pyval) list \<Rightarrow> (string \<times> pyval) list \<Rightarrow> bool" where
  "py_eq a b =
     (case a of
        PNone \<Rightarrow> b = PNone
      | PStr s \<Rightarrow> b = PStr s
      | PList xs \<Rightarrow> (case b of PList ys \<Rightarrow> py_eq_items xs ys | _ \<Rightarrow> False)
      | PTuple xs \<Rightarrow> (case b of PTuple ys \<Rightarrow> py_eq_items xs ys | _ \<Rightarrow> False)
      | PObj c d \<Rightarrow>
          (case b of PObj c' d' \<Rightarrow> length d = length d' \<and> py_eq_entries d d' | _ \<Rightarrow> False)
      | _ \<Rightarrow> (case num_value b of
                None \<Rightarrow> False
              | Some y \<Rightarrow> num_value a = Some y \<and> \<not> is_NaN y))"
| "py_eq_items [] ys = (ys = [])"
| "py_eq_items (x # xs) ys =
     (case ys of
        [] \<Rightarrow> False
      | y # ys' \<Rightarrow> (same_NaN_object x y \<or> py_eq x y) \<and> py_eq_items xs ys')"
| "py_eq_entries [] d' = True"
| "py_eq_entries (kv # d) d' =
     (case map_of d' (fst kv) of
        None \<Rightarrow> False
      | Some w \<Rightarrow> (same_NaN_object (snd kv) w \<or> py_eq (snd kv) w) \<and> py_eq_entries d d')"

section \<open>Geometry.clean_coordinates\<close>

text \<open>
  \<^verbatim>\<open>
  @classmethod
  def clean_coordinates(cls, coords):
      new_coords = []
      if isinstance(coords, Point):
          new_coords.append(coords)
      for coord in coords:
          if isinstance(coord, (list, tuple)):
              new_coords.append(cls.clean_coordinates(coord))
          elif isinstance(coord, Geometry):
              new_coords.append(coord['coordinates'])
          elif isinstance(coord, _JSON_compliant_types):
              new_coords.append(coord)
          else:
              raise ValueError("%r is not a JSON compliant number" % coord)
      return new_coords
  \<close>
  \<open>clean_loop\<close> is the \<^verbatim>\<open>for\<close> loop: its first argument is \<^verbatim>\<open>new_coords\<close> so far,
  its second the items still to visit. An exception ends the call with \<open>Inl\<close>.
\<close>

text \<open>
  The recursion descends into list and tuple items only. It is measured by the
  containers still to visit (\<open>weight\<close>), then by whether the call is at the head of
  a function, then by the number of items left.
\<close>

fun weight :: "pyval \<Rightarrow> nat" where
  "weight (PList xs) = Suc (sum_list (map weight xs))"
| "weight (PTuple xs) = Suc (sum_list (map weight xs))"
| "weight (PObj c d) = Suc (sum_list (map (\<lambda>kv. weight (snd kv)) d))"
| "weight _ = 0"

lemma weight_py_iter: "py_iter v = Inr items \<Longrightarrow> sum_list (map weight items) \<le> weight v"
  by (cases v) (auto simp: comp_def)

lemma weight_py_iter_less:
  "py_iter v = Inr items \<Longrightarrow> is_list_or_tuple v \<Longrightarrow> sum_list (map weight items) < weight v"
  by (cases v) auto

function clean_coordinates :: "pyval \<Rightarrow> pyerr + pyval"
  and clean_loop :: "pyval list \<Rightarrow> pyval list \<Rightarrow> pyerr + pyval" where
  "clean_coordinates coords =
     (case py_iter coords of
        Inl e \<Rightarrow> Inl e
      | Inr items \<Rightarrow> clean_loop (if is_Point coords then [coords] else []) items)"
| "clean_loop new_coords [] = Inr (PList new_coords)"
| "clean_loop new_coords (coord # rest) =
     (if is_list_or_tuple coord then
        (case clean_coordinates coord of
           Inl e \<Rightarrow> Inl e
         | Inr c \<Rightarrow> clean_loop (new_coords @ [c]) rest)
      else if is_Geometry coord then
        (case py_getkey coord ''coordinates'' of
           Inl e \<Rightarrow> Inl e
         | Inr c \<Rightarrow> clean_loop (new_coords @ [c]) rest)
      else if JSON_compliant coord then clean_loop (new_coords @ [coord]) rest
      else Inl (ValueError coord))"
  by pat_completeness auto

termination
proof (relation "measures
    [case_sum weight (\<lambda>p. sum_list (map weight (snd p))),
     case_sum (\<lambda>v. if is_list_or_tuple v then 0 else 2) (\<lambda>p. 1),
     case_sum (\<lambda>v. 0) (\<lambda>p. length (snd p))]", goal_cases)
  case 1
  show ?case by simp
next
  case (2 coords items)
  then show ?case
    using weight_py_iter_less [of coords items] weight_py_iter [of coords items]
    by (cases "is_list_or_tuple coords") auto
next
  case (3 new_coords coord rest)
  then show ?case by (cases coord) auto
next
  case (4 new_coords coord rest c)
  then show ?case by (cases coord) auto
next
  case (5 new_coords coord rest c)
  then show ?case by (cases coord) auto
next
  case (6 new_coords coord rest)
  then show ?case by (cases coord) auto
qed

section \<open>The validators\<close>

text \<open>
  A validator returns \<^verbatim>\<open>None\<close> (\<open>PNone\<close>) or a message (\<open>PStr\<close>).
\<close>

abbreviation not_a_list_error :: string where
  "not_a_list_error \<equiv> ''each position must be a list''"

abbreviation arity_error :: string where
  "arity_error \<equiv> ''a position must have exactly 2 or 3 values''"

abbreviation not_a_number_error :: string where
  "not_a_number_error \<equiv> ''each value in a position must be a number''"

abbreviation not_a_line_error :: string where
  "not_a_line_error \<equiv> ''each line must be a list of positions''"

abbreviation too_few_positions_error :: string where
  \<open>too_few_positions_error \<equiv>
     ''the "coordinates" member must be an array of two or more positions''\<close>

abbreviation ring_length_error :: string where
  "ring_length_error \<equiv> ''LinearRing must contain with 4 or more positions''"

abbreviation ring_closure_error :: string where
  "ring_closure_error \<equiv> ''The first and last positions in LinearRing must be equivalent''"

subsection \<open>check_point\<close>

text \<open>
  \<^verbatim>\<open>
  def check_point(coord):
      if not isinstance(coord, list):
          return 'each position must be a list'
      if len(coord) not in (2, 3):
          return 'a position must have exactly 2 or 3 values'
      for num in coord:
          if not isinstance(num, _JSON_compliant_types):
              return "each value in a position must be a number"
  \<close>
\<close>

fun check_point_values :: "pyval list \<Rightarrow> pyval" where
  "check_point_values [] = PNone"
| "check_point_values (num # rest) =
     (if \<not> JSON_compliant num then PStr not_a_number_error
      else check_point_values rest)"

definition check_point :: "pyval \<Rightarrow> pyval" where
  "check_point coord =
     (case coord of
        PList xs \<Rightarrow>
          if length xs \<noteq> 2 \<and> length xs \<noteq> 3 then PStr arity_error
          else check_point_values xs
      | _ \<Rightarrow> PStr not_a_list_error)"

subsection \<open>check_line_string\<close>

text \<open>
  \<^verbatim>\<open>
  def check_line_string(coord):
      if not isinstance(coord, list):
          return 'each line must be a list of positions'
      if len(coord) < 2:
          return ('the "coordinates" member must be an array of '
                  'two or more positions')
      for pos in coord:
          error = check_point(pos)
          if error:
              return error
  \<close>
\<close>

fun check_line_string_positions :: "pyval list \<Rightarrow> pyval" where
  "check_line_string_positions [] = PNone"
| "check_line_string_positions (pos # rest) =
     (let error = check_point pos
      in if py_truthy error then error else check_line_string_positions rest)"

definition check_line_string :: "pyval \<Rightarrow> pyval" where
  "check_line_string coord =
     (case coord of
        PList xs \<Rightarrow>
          if length xs < 2 then PStr too_few_positions_error
          else check_line_string_positions xs
      | _ \<Rightarrow> PStr not_a_line_error)"

subsection \<open>check_polygon\<close>

text \<open>
  \<^verbatim>\<open>
  def check_polygon(coord):
      lengths = all(len(elem) >= 4 for elem in coord)
      if lengths is False:
          return 'LinearRing must contain with 4 or more positions'

      isring = all(elem[0] == elem[-1] for elem in coord)
      if isring is False:
          return 'The first and last positions in LinearRing must be equivalent'
  \<close>
  \<^verbatim>\<open>all\<close> stops at the first item that is false, so an item after it is never
  evaluated; an item whose evaluation raises ends the call with that exception.
\<close>

fun all_lengths :: "pyval list \<Rightarrow> pyerr + bool" where
  "all_lengths [] = Inr True"
| "all_lengths (elem # rest) =
     (case py_len elem of
        Inl e \<Rightarrow> Inl e
      | Inr n \<Rightarrow> if n \<ge> 4 then all_lengths rest else Inr False)"

fun all_isring :: "pyval list \<Rightarrow> pyerr + bool" where
  "all_isring [] = Inr True"
| "all_isring (elem # rest) =
     (case py_getitem elem 0 of
        Inl e \<Rightarrow> Inl e
      | Inr first \<Rightarrow>
          (case py_getitem elem (- 1) of
             Inl e \<Rightarrow> Inl e
           | Inr final \<Rightarrow> if py_eq first final then all_isring rest else Inr False))"

definition check_polygon :: "pyval \<Rightarrow> pyerr + pyval" where
  "check_polygon coord =
     (case py_iter coord of
        Inl e \<Rightarrow> Inl e
      | Inr elems \<Rightarrow>
          (case all_lengths elems of
             Inl e \<Rightarrow> Inl e
           | Inr lengths \<Rightarrow>
               if lengths = False then Inr (PStr ring_length_error)
               else
                 (case all_isring elems of
                    Inl e \<Rightarrow> Inl e
                  | Inr isring \<Rightarrow>
                      if isring = False then Inr (PStr ring_closure_error)
                      else Inr PNone)))"

subsection \<open>check_list_errors\<close>

text \<open>
  Modelled from the spec: \<^verbatim>\<open>check_list_errors\<close> is a method of the base class
  \<^verbatim>\<open>geojson.base.GeoJSON\<close>, which is not part of this module. The spec describes
  it: the helper "applies a given per-element check function across a sequence and
  returns the first non-empty result encountered (order-preserving scan, stops at
  first error -- not an aggregate of all errors for that kind)". With no non-empty
  result there is no output, \<^verbatim>\<open>None\<close>. An element after the first error is not
  checked; a check that raises before it ends the scan with its exception.
  \<open>first_error\<close> is that scan.
\<close>

fun first_error :: "(pyval \<Rightarrow> pyerr + pyval) \<Rightarrow> pyval list \<Rightarrow> pyerr + pyval" where
  "first_error checkFunc [] = Inr PNone"
| "first_error checkFunc (x # rest) =
     (case checkFunc x of
        Inl e \<Rightarrow> Inl e
      | Inr err \<Rightarrow> if py_truthy err then Inr err else first_error checkFunc rest)"

text \<open>
  Modelled from the spec: the method \<^verbatim>\<open>check_list_errors(checkFunc, lst)\<close> of the
  missing base class, as the scan above over the items of \<^verbatim>\<open>lst\<close>.
\<close>

definition check_list_errors :: "(pyval \<Rightarrow> pyerr + pyval) \<Rightarrow> pyval \<Rightarrow> pyerr + pyval" where
  "check_list_errors checkFunc lst =
     (case py_iter lst of
        Inl e \<Rightarrow> Inl e
      | Inr items \<Rightarrow> first_error checkFunc items)"

subsection \<open>The errors methods\<close>

text \<open>
  Each geometry class overrides \<^verbatim>\<open>errors\<close> with a call of its check on
  \<^verbatim>\<open>self['coordinates']\<close>; the lookup raises \<^verbatim>\<open>KeyError\<close> when the key is missing.
  \<^verbatim>\<open>
  class Point(Geometry):
      def errors(self):
          return check_point(self['coordinates'])
  class MultiPoint(Geometry):
      def errors(self):
          return self.check_list_errors(check_point, self['coordinates'])
  class LineString(MultiPoint):
      def errors(self):
          return check_line_string(self['coordinates'])
  class MultiLineString(Geometry):
      def errors(self):
          return self.check_list_errors(check_line_string, self['coordinates'])
  class Polygon(Geometry):
      def errors(self):
          return check_polygon(self['coordinates'])
  class MultiPolygon(Geometry):
      def errors(self):
          return self.check_list_errors(check_polygon, self['coordinates'])
  \<close>
\<close>

definition Point_errors :: "pyval \<Rightarrow> pyerr + pyval" where
  "Point_errors self =
     (case py_getkey self ''coordinates'' of
        Inl e \<Rightarrow> Inl e
      | Inr coords \<Rightarrow> Inr (check_point coords))"

definition MultiPoint_errors :: "pyval \<Rightarrow> pyerr + pyval" where
  "MultiPoint_errors self =
     (case py_getkey self ''coordinates'' of
        Inl e \<Rightarrow> Inl e
      | Inr coords \<Rightarrow> check_list_errors (\<lambda>c. Inr (check_point c)) coords)"

definition LineString_errors :: "pyval \<Rightarrow> pyerr + pyval" where
  "LineString_errors self =
     (case py_getkey self ''coordinates'' of
        Inl e \<Rightarrow> Inl e
      | Inr coords \<Rightarrow> Inr (check_line_string coords))"

definition MultiLineString_errors :: "pyval \<Rightarrow> pyerr + pyval" where
  "MultiLineString_errors self =
     (case py_getkey self ''coordinates'' of
        Inl e \<Rightarrow> Inl e
      | Inr coords \<Rightarrow> check_list_errors (\<lambda>c. Inr (check_line_string c)) coords)"

definition Polygon_errors :: "pyval \<Rightarrow> pyerr + pyval" where
  "Polygon_errors self =
     (case py_getkey self ''coordinates'' of
        Inl e \<Rightarrow> Inl e
      | Inr coords \<Rightarrow> check_polygon coords)"

definition MultiPolygon_errors :: "pyval \<Rightarrow> pyerr + pyval" where
  "MultiPolygon_errors self =
     (case py_getkey self ''coordinates'' of
        Inl e \<Rightarrow> Inl e
      | Inr coords \<Rightarrow> check_list_errors check_polygon coords)"

subsection \<open>GeometryCollection.errors\<close>

text \<open>
  \<^verbatim>\<open>
  class GeometryCollection(GeoJSON):
      def errors(self):
          errors = [geom.errors() for geom in self['geometries']]
          return [err for err in errors if err]
  \<close>
  \<open>errors v\<close> is the method call \<^verbatim>\<open>v.errors()\<close>, dispatched on the class of \<open>v\<close>;
  a value that is not an instance of one of the classes has no such method.
  \<open>errors_each\<close> is the first list comprehension: it calls \<^verbatim>\<open>errors()\<close> on every
  member, in order, and an exception of a member ends it.
\<close>

lemma weight_map_of:
  "map_of d k = Some v \<Longrightarrow> weight v \<le> sum_list (map (\<lambda>kv. weight (snd kv)) d)"
  by (induction d) (auto split: if_splits)

lemma weight_py_getkey: "py_getkey self k = Inr v \<Longrightarrow> weight v < weight self"
  using weight_map_of by (cases self) (fastforce split: option.splits)+

function errors :: "pyval \<Rightarrow> pyerr + pyval"
  and errors_each :: "pyval list \<Rightarrow> pyerr + pyval list" where
  "errors self =
     (case self of
        PObj c d \<Rightarrow>
          (case c of
             Point \<Rightarrow> Point_errors self
           | MultiPoint \<Rightarrow> MultiPoint_errors self
           | LineString \<Rightarrow> LineString_errors self
           | MultiLineString \<Rightarrow> MultiLineString_errors self
           | Polygon \<Rightarrow> Polygon_errors self
           | MultiPolygon \<Rightarrow> MultiPolygon_errors self
           | GeometryCollection \<Rightarrow>
               (case py_getkey self ''geometries'' of
                  Inl e \<Rightarrow> Inl e
                | Inr geometries \<Rightarrow>
                    (case py_iter geometries of
                       Inl e \<Rightarrow> Inl e
                     | Inr geoms \<Rightarrow>
                         (case errors_each geoms of
                            Inl e \<Rightarrow> Inl e
                          | Inr errs \<Rightarrow> Inr (PList (filter py_truthy errs))))))
      | _ \<Rightarrow> Inl AttributeError)"
| "errors_each [] = Inr []"
| "errors_each (geom # rest) =
     (case errors geom of
        Inl e \<Rightarrow> Inl e
      | Inr err \<Rightarrow>
          (case errors_each rest of
             Inl e \<Rightarrow> Inl e
           | Inr errs \<Rightarrow> Inr (err # errs)))"
  by pat_completeness auto

termination
proof (relation "measures
    [case_sum weight (\<lambda>gs. sum_list (map weight gs)),
     case_sum (\<lambda>v. 0) (\<lambda>gs. 1),
     case_sum (\<lambda>v. 0) length]", goal_cases)
  case 1
  show ?case by simp
next
  case (2 self c d geometries geoms)
  then show ?case
    using weight_py_getkey [of self "''geometries''" geometries]
      weight_py_iter [of geometries geoms]
    by auto
next
  case (3 geom rest)
  then show ?case by auto
next
  case (4 geom rest err)
  then show ?case by auto
qed

text \<open>
  The defining equations of the two recursive entry points are unfolded by name
  where a proof needs them.
\<close>

declare clean_coordinates.simps [simp del] errors.simps [simp del]

section \<open>Notions used in the statements\<close>

text \<open>
  A canonical coordinate tree: a list whose items are numbers or canonical trees.
\<close>

fun canonical :: "pyval \<Rightarrow> bool" where
  "canonical (PList xs) = list_all (\<lambda>x. JSON_compliant x \<or> canonical x) xs"
| "canonical _ = False"

text \<open>
  The Number of the spec, section 3: "any value belonging to the JSON-compliant
  numeric domain (integer, floating-point, arbitrary-precision decimal). Not a
  string, not a boolean." The test the code makes, \<open>JSON_compliant\<close>, is wider: it
  holds of the booleans too.
\<close>

fun spec_Number :: "pyval \<Rightarrow> bool" where
  "spec_Number (PInt _) = True"
| "spec_Number (PFloat _) = True"
| "spec_Number (PDecimal _) = True"
| "spec_Number _ = False"

text \<open>
  \<open>occurs_in v raw\<close>: the value \<open>v\<close> is an item of \<open>raw\<close> or of a list or tuple
  nested in it, at any depth.
\<close>

fun occurs_in :: "pyval \<Rightarrow> pyval \<Rightarrow> bool" where
  "occurs_in v (PList xs) = (\<exists>x\<in>set xs. x = v \<or> occurs_in v x)"
| "occurs_in v (PTuple xs) = (\<exists>x\<in>set xs. x = v \<or> occurs_in v x)"
| "occurs_in v _ = False"

text \<open>
  \<open>trusted raw\<close>: every geometry object met as an item of the nest holds a canonical
  tree under \<^verbatim>\<open>'coordinates'\<close>, as \<^verbatim>\<open>Geometry.__init__\<close> stores it
  (\<^verbatim>\<open>self["coordinates"] = self.clean_coordinates(coordinates or [])\<close>).
\<close>

fun trusted :: "pyval \<Rightarrow> bool" where
  "trusted (PList xs) = list_all trusted xs"
| "trusted (PTuple xs) = list_all trusted xs"
| "trusted (PObj c d) = (case map_of d ''coordinates'' of None \<Rightarrow> True | Some t \<Rightarrow> canonical t)"
| "trusted _ = True"

section \<open>Properties of clean_coordinates\<close>

lemma clean_coordinates_list: "clean_coordinates (PList xs) = clean_loop [] xs"
  by (simp add: clean_coordinates.simps)

lemma clean_coordinates_tuple: "clean_coordinates (PTuple xs) = clean_loop [] xs"
  by (simp add: clean_coordinates.simps)

lemma clean_loop_append:
  "clean_loop acc pre = Inr (PList acc') \<Longrightarrow> clean_loop acc (pre @ post) = clean_loop acc' post"
  by (induction pre arbitrary: acc) (auto split: sum.splits if_splits)

lemma clean_loop_PList: "clean_loop acc xs = Inr r \<Longrightarrow> \<exists>acc'. r = PList acc'"
  by (induction xs arbitrary: acc) (auto split: sum.splits if_splits)

lemma canonical_is_list: "canonical v \<Longrightarrow> is_list_or_tuple v"
  by (cases v) auto

lemma JSON_compliant_leaf: "JSON_compliant v \<Longrightarrow> \<not> is_list_or_tuple v \<and> \<not> is_Geometry v"
  by (cases v) auto

text \<open>A canonical tree is returned as it is.\<close>

lemma clean_canonical:
  shows "canonical coords \<Longrightarrow> clean_coordinates coords = Inr coords"
    and "list_all (\<lambda>x. JSON_compliant x \<or> canonical x) items \<Longrightarrow>
         clean_loop acc items = Inr (PList (acc @ items))"
proof (induction coords and acc items rule: clean_coordinates_clean_loop.induct)
  case (1 coords)
  then show ?case
    by (cases coords) (auto simp: clean_coordinates.simps)
next
  case (2 new_coords)
  show ?case by simp
next
  case (3 new_coords coord rest)
  show ?case
  proof (cases "is_list_or_tuple coord")
    case True
    with 3 have "canonical coord" by (cases coord) auto
    with 3 True show ?thesis by simp
  next
    case False
    with 3 have "JSON_compliant coord" using canonical_is_list by auto
    with 3 False show ?thesis by (simp add: JSON_compliant_leaf)
  qed
qed

text \<open>A rejected value anywhere in the nest makes the whole call fail.\<close>

lemma clean_fails:
  assumes bad: "\<not> is_list_or_tuple v" "\<not> is_Geometry v" "\<not> JSON_compliant v"
  shows "occurs_in v coords \<Longrightarrow> isl (clean_coordinates coords)"
    and "\<exists>x\<in>set items. x = v \<or> occurs_in v x \<Longrightarrow> isl (clean_loop acc items)"
proof (induction coords and acc items rule: clean_coordinates_clean_loop.induct)
  case (1 coords)
  then show ?case
    by (cases coords) (auto simp: clean_coordinates.simps)
next
  case (2 new_coords)
  then show ?case by simp
next
  case (3 new_coords coord rest)
  show ?case
  proof (cases "coord = v")
    case True
    with bad show ?thesis by simp
  next
    case False
    show ?thesis
    proof (cases "occurs_in v coord")
      case True
      then have "is_list_or_tuple coord" by (cases coord) auto
      with True 3 show ?thesis by (auto split: sum.splits)
    next
      case no: False
      with False 3(5) have "\<exists>x\<in>set rest. x = v \<or> occurs_in v x" by auto
      with 3 show ?thesis by (auto split: sum.splits)
    qed
  qed
qed

text \<open>
  For a raw input that is not itself a \<^verbatim>\<open>Point\<close> and whose embedded geometry objects
  hold canonical trees, a result is a canonical tree: every leaf passes the numeric
  type test.
\<close>

lemma clean_leaves:
  shows "trusted coords \<Longrightarrow> \<not> is_Point coords \<Longrightarrow> clean_coordinates coords = Inr t \<Longrightarrow>
         canonical t"
    and "list_all trusted items \<Longrightarrow> list_all (\<lambda>x. JSON_compliant x \<or> canonical x) acc \<Longrightarrow>
         clean_loop acc items = Inr t \<Longrightarrow> canonical t"
proof (induction coords and acc items arbitrary: t and t
    rule: clean_coordinates_clean_loop.induct)
  case (1 coords)
  then show ?case
    by (cases coords) (auto simp: clean_coordinates.simps list_all_iff)
next
  case (2 new_coords)
  then show ?case by auto
next
  case (3 new_coords coord rest)
  show ?case
  proof (cases "is_list_or_tuple coord")
    case True
    with "3.prems" obtain c where
      c: "clean_coordinates coord = Inr c" "clean_loop (new_coords @ [c]) rest = Inr t"
      by (auto split: sum.splits)
    from True have "\<not> is_Point coord" by (cases coord) auto
    with "3.IH"(1) [OF True _ _ c(1)] "3.prems" have "canonical c" by simp
    with "3.IH"(2) [OF True c(1) _ _ c(2)] "3.prems" show ?thesis by simp
  next
    case False
    show ?thesis
    proof (cases "is_Geometry coord")
      case True
      with False "3.prems" obtain c where
        c: "py_getkey coord ''coordinates'' = Inr c"
          "clean_loop (new_coords @ [c]) rest = Inr t"
        by (auto split: sum.splits)
      with "3.prems" have "canonical c"
        by (cases coord) (auto split: option.splits)
      with "3.IH"(3) [OF False True c(1) _ _ c(2)] "3.prems" show ?thesis by simp
    next
      case geo: False
      with False "3.prems" have
        j: "JSON_compliant coord" "clean_loop (new_coords @ [coord]) rest = Inr t"
        by (auto split: if_splits)
      with "3.IH"(4) [OF False geo j(1) _ _ j(2)] "3.prems" show ?thesis by simp
    qed
  qed
qed

text \<open>
  A raw input that is itself a geometry object is iterated like any mapping: the
  loop visits its keys. A key is a string, so the first key is rejected.
\<close>

lemma clean_coordinates_object_with_keys:
  "clean_coordinates (PObj c ((k, v) # d)) = Inl (ValueError (PStr k))"
  by (simp add: clean_coordinates.simps)

text \<open>
  Hence no \<^verbatim>\<open>Point\<close> given as the raw input is ever turned into a canonical tree:
  with a key the call raises, with none the result holds the object itself.
\<close>

lemma clean_coordinates_Point_never_canonical:
  "clean_coordinates (PObj Point d) = Inr t \<Longrightarrow> \<not> canonical t"
  by (cases d) (auto simp: clean_coordinates.simps)

text \<open>
  C1. The claim: after \<^verbatim>\<open>clean_coordinates\<close> succeeds, every leaf of the result is
  a number, also when the raw input is itself a \<^verbatim>\<open>Point\<close>, which is then included as
  one contained coordinate. For list and tuple input the leaves are numbers
  (\<open>clean_leaves\<close>). For a \<^verbatim>\<open>Point\<close> input the code appends the object itself to
  \<^verbatim>\<open>new_coords\<close> and then iterates over it: on \<^verbatim>\<open>Point([1, 2])\<close>, whose first key is
  \<^verbatim>\<open>'type'\<close>, the call raises \<^verbatim>\<open>ValueError\<close> for that key and returns no tree; on a
  \<^verbatim>\<open>Point\<close> mapping with no key at all it returns the list that holds the raw
  \<^verbatim>\<open>Point\<close> object, a leaf that is not a number.
\<close>

theorem clean_coordinates_Point_input:
  "clean_coordinates
     (PObj Point [(''type'', PStr ''Point''), (''coordinates'', PList [PInt 1, PInt 2])])
     = Inl (ValueError (PStr ''type''))
   \<and> clean_coordinates (PObj Point []) = Inr (PList [PObj Point []])
   \<and> \<not> canonical (PList [PObj Point []])"
  by (simp add: clean_coordinates.simps)

lemma JSON_compliant_iff: "JSON_compliant v \<longleftrightarrow> spec_Number v \<or> (\<exists>b. v = PBool b)"
  by (cases v) auto

text \<open>
  C4. The claim: every element that is not a Number, not a list or tuple and not
  a \<^verbatim>\<open>Geometry\<close> makes \<^verbatim>\<open>clean_coordinates\<close> fail with the \<^verbatim>\<open>ValueError\<close> that
  carries it. A boolean is such an element, the spec's Number excluding booleans,
  and it is not rejected: \<^verbatim>\<open>clean_coordinates([1, True, 2])\<close> returns \<^verbatim>\<open>[1, True, 2]\<close>,
  because \<^verbatim>\<open>isinstance(True, (float, int, Decimal))\<close> holds.
\<close>

theorem clean_coordinates_bool_item_kept:
  "\<not> spec_Number (PBool True) \<and> \<not> is_list_or_tuple (PBool True) \<and> \<not> is_Geometry (PBool True)
   \<and> clean_coordinates (PList [PInt 1, PBool True, PInt 2])
       = Inr (PList [PInt 1, PBool True, PInt 2])"
  by (simp add: clean_coordinates.simps)

text \<open>
  C4, as amended: an item that is not a list or tuple, not a \<^verbatim>\<open>Geometry\<close> and not an
  instance of \<^verbatim>\<open>float\<close>, \<^verbatim>\<open>int\<close> (booleans included) or \<^verbatim>\<open>Decimal\<close> is rejected:
  when the items before it are accepted, the call raises \<^verbatim>\<open>ValueError\<close> carrying
  that very item, whatever follows it, for a list and for a tuple. The exception
  of a nested list or tuple is the exception of the enclosing call, so the
  offending value surfaces from any depth. And there is no partial result: a raw
  input in which such a value occurs at any depth does not return a tree.
\<close>

theorem clean_coordinates_rejects:
  assumes "\<not> is_list_or_tuple v" and "\<not> is_Geometry v" and "\<not> JSON_compliant v"
    and "clean_coordinates (PList pre) = Inr t"
    and "occurs_in v raw"
  shows "clean_coordinates (PList (pre @ v # post)) = Inl (ValueError v)
       \<and> clean_coordinates (PTuple (pre @ v # post)) = Inl (ValueError v)
       \<and> (is_list_or_tuple x \<and> clean_coordinates x = Inl e \<longrightarrow>
            clean_coordinates (PList (pre @ x # post)) = Inl e)
       \<and> isl (clean_coordinates raw)"
proof -
  from assms(4) have pre: "clean_loop [] pre = Inr t"
    by (simp add: clean_coordinates_list)
  then obtain acc where "t = PList acc"
    using clean_loop_PList by blast
  with pre have split: "clean_loop [] (pre @ y # post) = clean_loop acc (y # post)" for y
    by (simp add: clean_loop_append)
  from assms(1-3) have "clean_loop [] (pre @ v # post) = Inl (ValueError v)"
    by (simp add: split)
  moreover have "clean_loop [] (pre @ x # post) = Inl e"
    if "is_list_or_tuple x \<and> clean_coordinates x = Inl e"
    using that by (simp add: split)
  moreover from assms have "isl (clean_coordinates raw)"
    by (simp add: clean_fails(1))
  ultimately show ?thesis
    by (simp add: clean_coordinates_list clean_coordinates_tuple)
qed

theorem clean_coordinates_rejects_witness:
  "clean_coordinates (PList [PInt 1, PStr ''x'', PInt 2]) = Inl (ValueError (PStr ''x''))
   \<and> clean_coordinates (PTuple [PInt 1, PStr ''x'', PInt 2]) = Inl (ValueError (PStr ''x''))
   \<and> clean_coordinates (PList [PInt 1, PTuple [PInt 0, PNone], PInt 2])
       = Inl (ValueError PNone)
   \<and> isl (clean_coordinates (PList [PList [PInt 0, PInt 0], PTuple [PInt 1, PStr ''x'']]))"
proof -
  have pre: "clean_coordinates (PList [PInt 1]) = Inr (PList [PInt 1])"
    by (simp add: clean_coordinates.simps)
  have occ: "occurs_in (PStr ''x'') (PList [PList [PInt 0, PInt 0], PTuple [PInt 1, PStr ''x'']])"
    by simp
  have inner: "clean_coordinates (PTuple [PInt 0, PNone]) = Inl (ValueError PNone)"
    by (simp add: clean_coordinates.simps)
  show ?thesis
    using clean_coordinates_rejects [OF _ _ _ pre occ,
        of "[PInt 2]" "PTuple [PInt 0, PNone]" "ValueError PNone"] inner
    by simp
qed

text \<open>
  C8. The claim: for a boolean \<open>v\<close>, \<^verbatim>\<open>clean_coordinates([v])\<close> fails. It does not:
  \<^verbatim>\<open>bool\<close> is a subclass of \<^verbatim>\<open>int\<close>, so \<^verbatim>\<open>isinstance(True, (float, int, Decimal))\<close>
  holds and the boolean is appended unchanged.
\<close>

theorem clean_coordinates_True_accepted:
  "clean_coordinates (PList [PBool True]) = Inr (PList [PBool True])"
  by (simp add: clean_coordinates.simps)

text \<open>
  C8, as amended: for every boolean \<open>v\<close>, \<^verbatim>\<open>clean_coordinates([v])\<close> succeeds and
  returns \<^verbatim>\<open>[v]\<close>; a boolean belongs to the numeric domain the code tests for.
\<close>

theorem clean_coordinates_bool_accepted:
  "JSON_compliant (PBool b) \<and> clean_coordinates (PList [PBool b]) = Inr (PList [PBool b])"
  by (simp add: clean_coordinates.simps)

text \<open>
  The position validator uses the same test and takes booleans for numbers as well.
\<close>

lemma check_point_bool_accepted: "check_point (PList [PBool b, PBool b']) = PNone"
  by (simp add: check_point_def)

text \<open>
  What a call returns it returns again: the result of cleaning a raw input whose
  embedded geometry objects hold canonical trees is a fixed point.
\<close>

lemma clean_coordinates_result_fixed:
  assumes "trusted raw" and "\<not> is_Point raw" and "clean_coordinates raw = Inr t"
  shows "clean_coordinates t = Inr t"
  using assms clean_leaves(1) clean_canonical(1) by blast

text \<open>
  C9. A list of one number is returned as it is, and so is every canonical tree;
  cleaning the result of cleaning a canonical tree therefore changes nothing.
\<close>

theorem clean_coordinates_idempotent:
  "(JSON_compliant n \<longrightarrow> clean_coordinates (PList [n]) = Inr (PList [n]))
   \<and> (canonical t \<longrightarrow>
        clean_coordinates t = Inr t
        \<and> (case clean_coordinates t of Inl e \<Rightarrow> Inl e | Inr t' \<Rightarrow> clean_coordinates t')
            = clean_coordinates t)"
proof (intro conjI impI)
  assume "JSON_compliant n"
  then have "canonical (PList [n])" by simp
  then show "clean_coordinates (PList [n]) = Inr (PList [n])"
    by (rule clean_canonical(1))
next
  assume "canonical t"
  then show "clean_coordinates t = Inr t"
    by (rule clean_canonical(1))
next
  assume "canonical t"
  then have "clean_coordinates t = Inr t"
    by (rule clean_canonical(1))
  then show "(case clean_coordinates t of Inl e \<Rightarrow> Inl e | Inr t' \<Rightarrow> clean_coordinates t')
      = clean_coordinates t"
    by simp
qed

theorem clean_coordinates_idempotent_witness:
  "clean_coordinates (PList [PFloat (Finite (1 / 2))]) = Inr (PList [PFloat (Finite (1 / 2))])
   \<and> clean_coordinates (PList [PList [PInt 0, PInt 0], PList [PDecimal (Finite 1), PInt 1]])
       = Inr (PList [PList [PInt 0, PInt 0], PList [PDecimal (Finite 1), PInt 1]])
   \<and> (case clean_coordinates (PList [PList [PInt 0, PInt 0], PList [PDecimal (Finite 1), PInt 1]])
       of Inl e \<Rightarrow> Inl e | Inr t' \<Rightarrow> clean_coordinates t')
       = clean_coordinates (PList [PList [PInt 0, PInt 0], PList [PDecimal (Finite 1), PInt 1]])"
  using clean_coordinates_idempotent
    [of "PFloat (Finite (1 / 2))" "PList [PList [PInt 0, PInt 0], PList [PDecimal (Finite 1), PInt 1]]"]
  by simp

section \<open>Properties of the validators\<close>

subsection \<open>Positions and lines\<close>

lemma check_point_values_all:
  "check_point_values xs =
     (if list_all JSON_compliant xs then PNone else PStr not_a_number_error)"
  by (induction xs) auto

lemma check_point_truthy: "py_truthy (check_point c) = (check_point c \<noteq> PNone)"
  by (auto simp: check_point_def check_point_values_all split: pyval.splits)

lemma check_line_string_positions_truthy:
  "py_truthy (check_line_string_positions xs) = (check_line_string_positions xs \<noteq> PNone)"
  by (induction xs) (auto simp: Let_def check_point_truthy)

lemma check_line_string_truthy:
  "py_truthy (check_line_string c) = (check_line_string c \<noteq> PNone)"
  by (auto simp: check_line_string_def check_line_string_positions_truthy split: pyval.splits)

text \<open>
  C5. The claim: the position check tests that the input is a sequence, then that
  it has 2 or 3 elements, then that each element is a Number. The first test of
  the code is narrower and the last one wider. A tuple is a sequence, and
  \<^verbatim>\<open>check_point((1, 2))\<close> returns the list message, the code testing
  \<^verbatim>\<open>isinstance(coord, list)\<close>. A boolean is not a Number, and
  \<^verbatim>\<open>check_point([True, 1])\<close> returns nothing, the code testing
  \<^verbatim>\<open>isinstance(num, (float, int, Decimal))\<close>.
\<close>

theorem check_point_tuple_and_bool:
  "is_list_or_tuple (PTuple [PInt 1, PInt 2])
   \<and> check_point (PTuple [PInt 1, PInt 2]) = PStr not_a_list_error
   \<and> \<not> spec_Number (PBool True)
   \<and> check_point (PList [PBool True, PInt 1]) = PNone"
  by (simp add: check_point_def)

text \<open>
  C5, as amended: \<^verbatim>\<open>check_point\<close> tests, in this order: the input is a list (a
  tuple is not); it has 2 or 3 items; every item is an instance of \<^verbatim>\<open>float\<close>,
  \<^verbatim>\<open>int\<close> (booleans included) or \<^verbatim>\<open>Decimal\<close>. The first test that fails gives the
  message: a value that is not a list gets the list message whatever it holds, a
  list of another length gets the arity message whatever its items are, and a list
  of 2 or 3 items gets the number message as soon as one item, after accepted
  ones, fails the numeric test. A list of 2 or 3 accepted items has no error. So
  the points \<^verbatim>\<open>[1, 2]\<close> and \<^verbatim>\<open>[1, 2, 3]\<close> validate cleanly, and \<^verbatim>\<open>[1]\<close> and
  \<^verbatim>\<open>[1, 2, 3, 4]\<close> get the arity message.
\<close>

theorem check_point_order:
  "(\<not> is_list coord \<longrightarrow> check_point coord = PStr not_a_list_error)
   \<and> (length xs \<noteq> 2 \<and> length xs \<noteq> 3 \<longrightarrow> check_point (PList xs) = PStr arity_error)
   \<and> ((length ys = 2 \<or> length ys = 3) \<and> ys = good @ bad # rest
        \<and> list_all JSON_compliant good \<and> \<not> JSON_compliant bad \<longrightarrow>
        check_point (PList ys) = PStr not_a_number_error)
   \<and> ((length zs = 2 \<or> length zs = 3) \<and> list_all JSON_compliant zs \<longrightarrow>
        check_point (PList zs) = PNone)"
  by (cases coord) (auto simp: check_point_def check_point_values_all)

theorem check_point_order_witness:
  "errors (PObj Point [(''type'', PStr ''Point''), (''coordinates'', PList [PInt 1, PInt 2])])
     = Inr PNone
   \<and> errors (PObj Point
        [(''type'', PStr ''Point''), (''coordinates'', PList [PInt 1, PInt 2, PInt 3])])
     = Inr PNone
   \<and> errors (PObj Point [(''type'', PStr ''Point''), (''coordinates'', PList [PInt 1])])
     = Inr (PStr arity_error)
   \<and> errors (PObj Point
        [(''type'', PStr ''Point''), (''coordinates'', PList [PInt 1, PInt 2, PInt 3, PInt 4])])
     = Inr (PStr arity_error)
   \<and> check_point (PTuple [PInt 1, PInt 2]) = PStr not_a_list_error
   \<and> check_point (PList [PInt 1, PStr ''2'', PNone]) = PStr not_a_number_error"
  using
    check_point_order [of "PTuple [PInt 1, PInt 2]" "[PInt 1]" "[PInt 1, PStr ''2'', PNone]"
      "[PInt 1]" "PStr ''2''" "[PNone]" "[PInt 1, PInt 2]"]
    check_point_order [of PNone "[PInt 1, PInt 2, PInt 3, PInt 4]" "[]" "[]" PNone "[]"
      "[PInt 1, PInt 2, PInt 3]"]
  by (simp add: errors.simps Point_errors_def)

subsection \<open>Polygons\<close>

lemma seq_index_first: "xs \<noteq> [] \<Longrightarrow> seq_index xs 0 = Inr (hd xs)"
  by (simp add: seq_index_def hd_conv_nth)

lemma seq_index_final: "xs \<noteq> [] \<Longrightarrow> seq_index xs (- 1) = Inr (last xs)"
proof -
  assume ne: "xs \<noteq> []"
  then have "nat (int (length xs) - 1) = length xs - 1" and "1 \<le> int (length xs)"
    by (cases xs; simp)+
  with ne show ?thesis
    by (simp add: seq_index_def last_conv_nth)
qed

lemma all_lengths_rings:
  "all_lengths (map PList rings) = Inr (list_all (\<lambda>r. 4 \<le> length r) rings)"
  by (induction rings) auto

lemma all_isring_rings:
  "list_all (\<lambda>r. 4 \<le> length r) rings \<Longrightarrow>
   all_isring (map PList rings) = Inr (list_all (\<lambda>r. py_eq (hd r) (last r)) rings)"
proof (induction rings)
  case Nil
  show ?case by simp
next
  case (Cons r rings)
  then have "r \<noteq> []" by auto
  with Cons show ?case
    by (simp add: seq_index_first seq_index_final)
qed

lemma check_polygon_truthy: "check_polygon c = Inr r \<Longrightarrow> py_truthy r = (r \<noteq> PNone)"
  by (auto simp: check_polygon_def split: sum.splits if_splits)

text \<open>
  C3. On a list of rings (each ring a list of positions) \<^verbatim>\<open>check_polygon\<close> returns
  the length message when some ring has fewer than 4 positions, whether or not
  the rings are closed (an empty ring, whose first position does not exist, gets
  the length message too: closure is not looked at). Only when every ring has 4
  positions or more does it compare the first and the last position of each ring
  with \<^verbatim>\<open>==\<close>, and it returns the closure message when some ring is not closed, and
  nothing otherwise. The ring \<^verbatim>\<open>[[0,0],[1,0],[1,1],[0,0]]\<close> has no error; without its
  closing point it has 3 positions and gets the length message; with another last
  position it gets the closure message. The comparison is Python's \<^verbatim>\<open>==\<close> of two
  lists: \<^verbatim>\<open>[0, 0]\<close> closes a ring that starts with \<^verbatim>\<open>[0.0, 0.0]\<close>, and a ring
  whose end positions hold one and the same NaN object is closed, while one whose
  end positions hold two NaN objects is not.
\<close>

theorem check_polygon_length_before_closure:
  "check_polygon (PList (map PList rings)) =
     Inr (if \<exists>r\<in>set rings. length r < 4 then PStr ring_length_error
          else if \<exists>r\<in>set rings. \<not> py_eq (hd r) (last r) then PStr ring_closure_error
          else PNone)
   \<and> check_polygon (PList [PList [PList [PInt 0, PInt 0], PList [PInt 1, PInt 0],
        PList [PInt 1, PInt 1], PList [PInt 0, PInt 0]]]) = Inr PNone
   \<and> check_polygon (PList [PList [PList [PInt 0, PInt 0], PList [PInt 1, PInt 0],
        PList [PInt 1, PInt 1]]]) = Inr (PStr ring_length_error)
   \<and> check_polygon (PList [PList [PList [PInt 0, PInt 0], PList [PInt 1, PInt 0],
        PList [PInt 1, PInt 1], PList [PInt 0, PInt 1]]]) = Inr (PStr ring_closure_error)
   \<and> check_polygon (PList [PList [PList [PFloat (Finite 0), PFloat (Finite 0)],
        PList [PInt 1, PInt 0], PList [PInt 1, PInt 1], PList [PInt 0, PInt 0]]]) = Inr PNone
   \<and> check_polygon (PList [PList [PList [PFloat (NaN 0), PInt 0], PList [PInt 1, PInt 0],
        PList [PInt 1, PInt 1], PList [PFloat (NaN 0), PInt 0]]]) = Inr PNone
   \<and> check_polygon (PList [PList [PList [PFloat (NaN 0), PInt 0], PList [PInt 1, PInt 0],
        PList [PInt 1, PInt 1], PList [PFloat (NaN 1), PInt 0]]])
       = Inr (PStr ring_closure_error)"
proof (intro conjI)
  show "check_polygon (PList (map PList rings)) =
     Inr (if \<exists>r\<in>set rings. length r < 4 then PStr ring_length_error
          else if \<exists>r\<in>set rings. \<not> py_eq (hd r) (last r) then PStr ring_closure_error
          else PNone)"
  proof (cases "list_all (\<lambda>r. 4 \<le> length r) rings")
    case True
    then have "\<not> (\<exists>r\<in>set rings. length r < 4)"
      by (auto simp: list_all_iff)
    with True show ?thesis
      by (simp add: check_polygon_def all_lengths_rings all_isring_rings list_all_iff)
  next
    case False
    then have "\<exists>r\<in>set rings. length r < 4"
      by (auto simp: list_all_iff not_le)
    with False show ?thesis
      by (simp add: check_polygon_def all_lengths_rings)
  qed
qed (simp_all add: check_polygon_def seq_index_def)

text \<open>
  A NaN that is itself the first and the last item of a ring is compared with
  \<^verbatim>\<open>==\<close> directly and is not equal to itself: the ring \<^verbatim>\<open>[n, 1, 2, n]\<close> is not closed.
\<close>

lemma check_polygon_NaN_ends:
  "check_polygon (PList [PList [PFloat (NaN 0), PInt 1, PInt 2, PFloat (NaN 0)]])
     = Inr (PStr ring_closure_error)"
  by (simp add: check_polygon_def seq_index_def)

text \<open>
  C10. \<^verbatim>\<open>check_polygon([])\<close> returns nothing: both \<^verbatim>\<open>all(...)\<close> are true of no
  ring. A \<^verbatim>\<open>Polygon\<close> with no ring validates cleanly.
\<close>

theorem check_polygon_empty:
  "all_lengths [] = Inr True \<and> all_isring [] = Inr True
   \<and> check_polygon (PList []) = Inr PNone
   \<and> errors (PObj Polygon [(''type'', PStr ''Polygon''), (''coordinates'', PList [])])
       = Inr PNone"
  by (simp add: check_polygon_def errors.simps Polygon_errors_def)

text \<open>
  The validators of positions and lines return on every value: their result type
  has no exception. On an object whose coordinates are a list, as
  \<^verbatim>\<open>clean_coordinates\<close> stores them, the four methods built on them return.
\<close>

lemma first_error_total:
  "\<exists>r. first_error (\<lambda>c. Inr (check c)) items = (Inr r :: pyerr + pyval)"
  by (induction items) auto

lemma position_and_line_validators_return:
  assumes "map_of d ''coordinates'' = Some (PList items)"
  shows "\<exists>r. errors (PObj Point d) = Inr r"
    and "\<exists>r. errors (PObj MultiPoint d) = Inr r"
    and "\<exists>r. errors (PObj LineString d) = Inr r"
    and "\<exists>r. errors (PObj MultiLineString d) = Inr r"
  using assms first_error_total [of check_point items]
    first_error_total [of check_line_string items]
  by (simp_all add: errors.simps Point_errors_def MultiPoint_errors_def LineString_errors_def
      MultiLineString_errors_def check_list_errors_def)

text \<open>
  C2. The claim: no validator throws, and \<^verbatim>\<open>check_polygon\<close> returns normally on
  every input list. \<^verbatim>\<open>check_point\<close> and \<^verbatim>\<open>check_line_string\<close> test
  \<^verbatim>\<open>isinstance(coord, list)\<close> before they take a length; \<^verbatim>\<open>check_polygon\<close> takes
  \<^verbatim>\<open>len(elem)\<close> of every item untested. On the list \<^verbatim>\<open>[1, 2]\<close>, the coordinates
  of a point, \<^verbatim>\<open>len(1)\<close> raises \<^verbatim>\<open>TypeError\<close>, and so does
  \<^verbatim>\<open>Polygon([1, 2]).errors()\<close>.
\<close>

theorem check_polygon_raises_TypeError:
  "check_polygon (PList [PInt 1, PInt 2]) = Inl TypeError
   \<and> errors (PObj Polygon
        [(''type'', PStr ''Polygon''), (''coordinates'', PList [PInt 1, PInt 2])])
       = Inl TypeError"
  by (simp add: check_polygon_def errors.simps Polygon_errors_def)

subsection \<open>Lists of members\<close>

lemma first_error_first:
  "list_all (\<lambda>g. \<exists>r. f g = Inr r \<and> \<not> py_truthy r) good \<Longrightarrow> f bad = Inr err \<Longrightarrow>
   py_truthy err \<Longrightarrow> first_error f (good @ bad # rest) = Inr err"
  by (induction good) auto

text \<open>
  C7. \<^verbatim>\<open>MultiPoint\<close>, \<^verbatim>\<open>MultiLineString\<close> and \<^verbatim>\<open>MultiPolygon\<close> run their check over
  the coordinate list in order and return the result of the first member that has
  an error, whatever the members after it are (valid, invalid, or not even checkable).
  With two invalid members the message is the first one's.
\<close>

theorem multi_errors_first_failure:
  assumes "map_of d ''coordinates'' = Some (PList (good @ bad # rest))"
  shows
    "(list_all (\<lambda>g. check_point g = PNone) good \<and> check_point bad \<noteq> PNone \<longrightarrow>
        errors (PObj MultiPoint d) = Inr (check_point bad))
   \<and> (list_all (\<lambda>g. check_line_string g = PNone) good \<and> check_line_string bad \<noteq> PNone \<longrightarrow>
        errors (PObj MultiLineString d) = Inr (check_line_string bad))
   \<and> (list_all (\<lambda>g. check_polygon g = Inr PNone) good \<and> check_polygon bad = Inr err
        \<and> err \<noteq> PNone \<longrightarrow>
        errors (PObj MultiPolygon d) = Inr err)"
proof (intro conjI impI)
  assume a: "list_all (\<lambda>g. check_point g = PNone) good \<and> check_point bad \<noteq> PNone"
  then have "list_all
      (\<lambda>g. \<exists>r. Inr (check_point g) = (Inr r :: pyerr + pyval) \<and> \<not> py_truthy r) good"
    by (auto simp: list_all_iff)
  with a have "first_error (\<lambda>c. Inr (check_point c)) (good @ bad # rest)
      = Inr (check_point bad)"
    by (intro first_error_first) (auto simp: check_point_truthy)
  with assms show "errors (PObj MultiPoint d) = Inr (check_point bad)"
    by (simp add: errors.simps MultiPoint_errors_def check_list_errors_def)
next
  assume a: "list_all (\<lambda>g. check_line_string g = PNone) good \<and> check_line_string bad \<noteq> PNone"
  then have "list_all
      (\<lambda>g. \<exists>r. Inr (check_line_string g) = (Inr r :: pyerr + pyval) \<and> \<not> py_truthy r) good"
    by (auto simp: list_all_iff)
  with a have "first_error (\<lambda>c. Inr (check_line_string c)) (good @ bad # rest)
      = Inr (check_line_string bad)"
    by (intro first_error_first) (auto simp: check_line_string_truthy)
  with assms show "errors (PObj MultiLineString d) = Inr (check_line_string bad)"
    by (simp add: errors.simps MultiLineString_errors_def check_list_errors_def)
next
  assume a: "list_all (\<lambda>g. check_polygon g = Inr PNone) good \<and> check_polygon bad = Inr err
        \<and> err \<noteq> PNone"
  then have "list_all (\<lambda>g. \<exists>r. check_polygon g = Inr r \<and> \<not> py_truthy r) good"
    by (auto simp: list_all_iff)
  with a have "first_error check_polygon (good @ bad # rest) = Inr err"
    by (intro first_error_first) (auto simp: check_polygon_truthy)
  with assms show "errors (PObj MultiPolygon d) = Inr err"
    by (simp add: errors.simps MultiPolygon_errors_def check_list_errors_def)
qed

text \<open>
  The witness: a \<^verbatim>\<open>MultiPolygon\<close> of a valid polygon, a polygon whose ring is too
  short and a polygon whose ring is not closed reports the length message, the
  first failing member's; a \<^verbatim>\<open>MultiPoint\<close> of \<^verbatim>\<open>[0, 0]\<close>, \<^verbatim>\<open>[1]\<close> and a string reports
  the arity message; a \<^verbatim>\<open>MultiLineString\<close> of a line of one position and a number
  reports the message of the line.
\<close>

theorem multi_errors_first_failure_witness:
  "errors (PObj MultiPolygon [(''type'', PStr ''MultiPolygon''), (''coordinates'', PList
      [PList [PList [PList [PInt 0, PInt 0], PList [PInt 1, PInt 0], PList [PInt 1, PInt 1],
         PList [PInt 0, PInt 0]]],
       PList [PList [PList [PInt 0, PInt 0], PList [PInt 1, PInt 0]]],
       PList [PList [PList [PInt 0, PInt 0], PList [PInt 1, PInt 0], PList [PInt 1, PInt 1],
         PList [PInt 2, PInt 2]]]])])
     = Inr (PStr ring_length_error)
   \<and> errors (PObj MultiPoint [(''type'', PStr ''MultiPoint''), (''coordinates'', PList
      [PList [PInt 0, PInt 0], PList [PInt 1], PStr ''x''])])
     = Inr (PStr arity_error)
   \<and> errors (PObj MultiLineString [(''type'', PStr ''MultiLineString''), (''coordinates'', PList
      [PList [PList [PInt 0, PInt 0]], PInt 7])])
     = Inr (PStr too_few_positions_error)"
proof -
  have polygons:
    "check_polygon (PList [PList [PList [PInt 0, PInt 0], PList [PInt 1, PInt 0],
        PList [PInt 1, PInt 1], PList [PInt 0, PInt 0]]]) = Inr PNone"
    "check_polygon (PList [PList [PList [PInt 0, PInt 0], PList [PInt 1, PInt 0]]])
       = Inr (PStr ring_length_error)"
    by (simp_all add: check_polygon_def seq_index_def)
  have points: "check_point (PList [PInt 0, PInt 0]) = PNone"
    "check_point (PList [PInt 1]) = PStr arity_error"
    by (simp_all add: check_point_def)
  have line: "check_line_string (PList [PList [PInt 0, PInt 0]]) = PStr too_few_positions_error"
    by (simp add: check_line_string_def)
  show ?thesis
    using
      multi_errors_first_failure [of
        "[(''type'', PStr ''MultiPolygon''), (''coordinates'', PList
          [PList [PList [PList [PInt 0, PInt 0], PList [PInt 1, PInt 0], PList [PInt 1, PInt 1],
             PList [PInt 0, PInt 0]]],
           PList [PList [PList [PInt 0, PInt 0], PList [PInt 1, PInt 0]]],
           PList [PList [PList [PInt 0, PInt 0], PList [PInt 1, PInt 0], PList [PInt 1, PInt 1],
             PList [PInt 2, PInt 2]]]])]"
        "[PList [PList [PList [PInt 0, PInt 0], PList [PInt 1, PInt 0], PList [PInt 1, PInt 1],
             PList [PInt 0, PInt 0]]]]"
        "PList [PList [PList [PInt 0, PInt 0], PList [PInt 1, PInt 0]]]"
        "[PList [PList [PList [PInt 0, PInt 0], PList [PInt 1, PInt 0], PList [PInt 1, PInt 1],
             PList [PInt 2, PInt 2]]]]"
        "PStr ring_length_error"]
      multi_errors_first_failure [of
        "[(''type'', PStr ''MultiPoint''), (''coordinates'', PList
          [PList [PInt 0, PInt 0], PList [PInt 1], PStr ''x''])]"
        "[PList [PInt 0, PInt 0]]" "PList [PInt 1]" "[PStr ''x'']" PNone]
      multi_errors_first_failure [of
        "[(''type'', PStr ''MultiLineString''), (''coordinates'', PList
          [PList [PList [PInt 0, PInt 0]], PInt 7])]"
        "[]" "PList [PList [PInt 0, PInt 0]]" "[PInt 7]" PNone]
      polygons points line
    by simp
qed

subsection \<open>Collections\<close>

lemma errors_each_returns:
  "map errors geoms = map Inr errs \<Longrightarrow> errors_each geoms = Inr errs"
proof (induction geoms arbitrary: errs)
  case Nil
  then show ?case by simp
next
  case (Cons g geoms)
  then obtain r rs where "errs = r # rs" "errors g = Inr r" "map errors geoms = map Inr rs"
    by (cases errs) auto
  with Cons.IH [of rs] show ?case by simp
qed

lemma errors_each_raises: "g \<in> set geoms \<Longrightarrow> isl (errors g) \<Longrightarrow> isl (errors_each geoms)"
proof (induction geoms)
  case Nil
  then show ?case by simp
next
  case (Cons a geoms)
  show ?case
  proof (cases "errors a")
    case (Inl e)
    then show ?thesis by simp
  next
    case (Inr r)
    with Cons have "isl (errors_each geoms)" by auto
    with Inr show ?thesis by (cases "errors_each geoms") auto
  qed
qed

text \<open>
  C6. \<^verbatim>\<open>GeometryCollection.errors\<close> calls \<^verbatim>\<open>errors()\<close> on every member: when the
  members return \<open>errs\<close>, in member order, the result is the list of the non-empty
  ones among \<open>errs\<close>, in the same order; nothing stops at the first error. A member
  after an invalid one is still called: if its call raises, so does the
  collection's.
\<close>

theorem GeometryCollection_errors_aggregate:
  assumes "map_of d ''geometries'' = Some (PList geoms)"
  shows "(map errors geoms = map Inr errs \<longrightarrow>
            errors (PObj GeometryCollection d) = Inr (PList (filter py_truthy errs)))
       \<and> (g \<in> set geoms \<and> isl (errors g) \<longrightarrow> isl (errors (PObj GeometryCollection d)))"
proof (intro conjI impI)
  assume "map errors geoms = map Inr errs"
  then have "errors_each geoms = Inr errs" by (rule errors_each_returns)
  with assms show "errors (PObj GeometryCollection d) = Inr (PList (filter py_truthy errs))"
    by (simp add: errors.simps)
next
  assume "g \<in> set geoms \<and> isl (errors g)"
  then have "isl (errors_each geoms)" by (auto intro: errors_each_raises)
  then obtain e where "errors_each geoms = Inl e" by (cases "errors_each geoms") auto
  with assms show "isl (errors (PObj GeometryCollection d))"
    by (simp add: errors.simps)
qed

text \<open>
  The witness: a collection of the valid point \<^verbatim>\<open>[1, 2]\<close> and the invalid point
  \<^verbatim>\<open>[1]\<close> yields a list of length 1 that holds the arity message; with a second
  invalid member, a line of one position, both messages are listed in member
  order; with a polygon of coordinates \<^verbatim>\<open>[1, 2]\<close> after the invalid point the call
  raises.
\<close>

theorem GeometryCollection_errors_aggregate_witness:
  "errors (PObj GeometryCollection [(''type'', PStr ''GeometryCollection''), (''geometries'',
      PList [PObj Point [(''type'', PStr ''Point''), (''coordinates'', PList [PInt 1, PInt 2])],
             PObj Point [(''type'', PStr ''Point''), (''coordinates'', PList [PInt 1])]])])
     = Inr (PList [PStr arity_error])
   \<and> errors (PObj GeometryCollection [(''type'', PStr ''GeometryCollection''), (''geometries'',
      PList [PObj Point [(''type'', PStr ''Point''), (''coordinates'', PList [PInt 1])],
             PObj Point [(''type'', PStr ''Point''), (''coordinates'', PList [PInt 1, PInt 2])],
             PObj LineString [(''type'', PStr ''LineString''),
               (''coordinates'', PList [PList [PInt 0, PInt 0]])]])])
     = Inr (PList [PStr arity_error, PStr too_few_positions_error])
   \<and> isl (errors (PObj GeometryCollection [(''type'', PStr ''GeometryCollection''),
      (''geometries'',
      PList [PObj Point [(''type'', PStr ''Point''), (''coordinates'', PList [PInt 1])],
             PObj Polygon [(''type'', PStr ''Polygon''),
               (''coordinates'', PList [PInt 1, PInt 2])]])]))"
proof -
  have members:
    "errors (PObj Point [(''type'', PStr ''Point''), (''coordinates'', PList [PInt 1, PInt 2])])
       = Inr PNone"
    "errors (PObj Point [(''type'', PStr ''Point''), (''coordinates'', PList [PInt 1])])
       = Inr (PStr arity_error)"
    "errors (PObj LineString [(''type'', PStr ''LineString''),
        (''coordinates'', PList [PList [PInt 0, PInt 0]])])
       = Inr (PStr too_few_positions_error)"
    "errors (PObj Polygon [(''type'', PStr ''Polygon''), (''coordinates'', PList [PInt 1, PInt 2])])
       = Inl TypeError"
    by (simp_all add: errors.simps Point_errors_def LineString_errors_def Polygon_errors_def
        check_point_def check_line_string_def check_polygon_def)
  show ?thesis
    using
      GeometryCollection_errors_aggregate [of
        "[(''type'', PStr ''GeometryCollection''), (''geometries'',
          PList [PObj Point [(''type'', PStr ''Point''), (''coordinates'', PList [PInt 1, PInt 2])],
                 PObj Point [(''type'', PStr ''Point''), (''coordinates'', PList [PInt 1])]])]"
        "[PObj Point [(''type'', PStr ''Point''), (''coordinates'', PList [PInt 1, PInt 2])],
          PObj Point [(''type'', PStr ''Point''), (''coordinates'', PList [PInt 1])]]"
        "[PNone, PStr arity_error]" PNone]
      GeometryCollection_errors_aggregate [of
        "[(''type'', PStr ''GeometryCollection''), (''geometries'',
          PList [PObj Point [(''type'', PStr ''Point''), (''coordinates'', PList [PInt 1])],
             PObj Point [(''type'', PStr ''Point''), (''coordinates'', PList [PInt 1, PInt 2])],
             PObj LineString [(''type'', PStr ''LineString''),
               (''coordinates'', PList [PList [PInt 0, PInt 0]])]])]"
        "[PObj Point [(''type'', PStr ''Point''), (''coordinates'', PList [PInt 1])],
          PObj Point [(''type'', PStr ''Point''), (''coordinates'', PList [PInt 1, PInt 2])],
          PObj LineString [(''type'', PStr ''LineString''),
            (''coordinates'', PList [PList [PInt 0, PInt 0]])]]"
        "[PStr arity_error, PNone, PStr too_few_positions_error]" PNone]
      GeometryCollection_errors_aggregate [of
        "[(''type'', PStr ''GeometryCollection''), (''geometries'',
          PList [PObj Point [(''type'', PStr ''Point''), (''coordinates'', PList [PInt 1])],
             PObj Polygon [(''type'', PStr ''Polygon''),
               (''coordinates'', PList [PInt 1, PInt 2])]])]"
        "[PObj Point [(''type'', PStr ''Point''), (''coordinates'', PList [PInt 1])],
          PObj Polygon [(''type'', PStr ''Polygon''), (''coordinates'', PList [PInt 1, PInt 2])]]"
        "[]"
        "PObj Polygon [(''type'', PStr ''Polygon''), (''coordinates'', PList [PInt 1, PInt 2])]"]
      members
    by simp
qed

end
